theory Spec2Isabelle
  imports Complex_Main "HOL-Library.Word"
begin

section \<open>Data model of \<^verbatim>\<open>BoatTracking/main.go\<close>\<close>

text \<open>
  Byte slices (\<^verbatim>\<open>[]byte\<close>) and Go strings are both sequences of bytes; they are modelled
  as \<open>string\<close>, so that the conversion \<^verbatim>\<open>[]byte(s)\<close> is the identity.
\<close>

type_synonym bytes = string

text \<open>
  \<^verbatim>\<open>type SubscribeMessage struct { APIKey string; BoundingBoxes [][][]float64 }\<close>.
  The only \<^verbatim>\<open>float64\<close> values the program builds itself are the four integer constants of
  the bounding box, which are exact; floating-point values are carried as \<open>real\<close>.
\<close>

record SubscribeMessage =
  APIKey :: string
  BoundingBoxes :: "real list list list"

text \<open>\<^verbatim>\<open>type PositionReport struct { UserID int; Latitude float64; Longitude float64 }\<close>\<close>

record PositionReport =
  UserID :: int
  Latitude :: real
  Longitude :: real

text \<open>
  \<^verbatim>\<open>type Message struct { MessageType string; Message struct { PositionReport PositionReport } }\<close>;
  the anonymous inner struct is the record \<open>Message_payload\<close>.
\<close>

record Message_payload =
  PositionReport :: PositionReport

record Message =
  MessageType :: string
  Message :: Message_payload

text \<open>
  A Go \<^verbatim>\<open>error\<close> value. Errors coming out of the libraries are opaque messages;
  \<^verbatim>\<open>fmt.Errorf("...: %w", err)\<close> wraps one under a prefix. The \<^verbatim>\<open>nil\<close> error is \<open>None\<close> of
  \<open>error option\<close>.
\<close>

datatype error = LibError string | Errorf string error

text \<open>\<^verbatim>\<open>kafka.Message{Key: ..., Value: ...}\<close>: the two fields the program sets.\<close>

record kafka_Message =
  Key :: bytes
  Value :: bytes

text \<open>
  The state of kafka-go's \<^verbatim>\<open>LeastBytes\<close> balancer: one byte counter per partition
  (\<^verbatim>\<open>counters []leastBytesCounter\<close>, each a partition number and a \<^verbatim>\<open>uint64\<close>).
\<close>

record leastBytesCounter =
  partition :: int
  nbytes :: "64 word"

datatype Balancer = LeastBytes "leastBytesCounter list"

text \<open>\<^verbatim>\<open>kafka.Writer{Addr: ..., Topic: ..., Balancer: ...}\<close>\<close>

record Writer =
  Addr :: string
  Topic :: string
  Balancer :: Balancer

section \<open>The world the program acts on\<close>

text \<open>
  What the program prints through \<^verbatim>\<open>log.Printf\<close> and \<^verbatim>\<open>log.Fatal\<close>, one constructor for each
  call site.
\<close>

datatype log_entry =
    LogStarting string string
  | LogUnmarshalFailed string
  | LogKafkaWriteFailed string
  | LogFatal error

text \<open>
  Everything the program does to the outside is recorded in the \<open>world\<close>: the calls of
  \<^verbatim>\<open>Dial\<close>, the frames handed to \<^verbatim>\<open>conn.WriteMessage\<close>, the number of \<^verbatim>\<open>conn.ReadMessage\<close> calls,
  the messages handed to \<^verbatim>\<open>kafkaWriter.WriteMessages\<close>, the log, the position reports printed
  on standard output (the time stamp of the line is left out), and whether the connection
  is open.
\<close>

record world =
  dials :: nat
  conn_open :: bool
  ws_writes :: "bytes list"
  reads :: nat
  writes :: "kafka_Message list"
  logs :: "log_entry list"
  stdout :: "PositionReport list"

text \<open>
  What the outside answers. \<open>read_result e i\<close> is the result of the \<open>i\<close>-th call of
  \<^verbatim>\<open>conn.ReadMessage\<close> (\<open>Inl\<close> a read error or a closed connection, \<open>Inr\<close> a frame), and
  \<open>write_result e i\<close> the result of the \<open>i\<close>-th call of \<^verbatim>\<open>WriteMessages\<close> (\<open>None\<close> is
  \<^verbatim>\<open>nil\<close>). The two library functions \<^verbatim>\<open>json.Marshal\<close> and \<^verbatim>\<open>json.Unmarshal\<close> are parameters
  too.
\<close>

record external =
  dial_result :: "string option"
  send_result :: "string option"
  read_result :: "nat \<Rightarrow> string + bytes"
  write_result :: "nat \<Rightarrow> string option"
  marshal :: "SubscribeMessage \<Rightarrow> string + bytes"
  unmarshal :: "bytes \<Rightarrow> string + Message"

section \<open>\<^verbatim>\<open>fmt.Sprintf("%d", n)\<close>\<close>

definition digit_char :: "nat \<Rightarrow> char" where
  "digit_char d = char_of (48 + d)"

fun decimal :: "nat \<Rightarrow> string" where
  "decimal n = (if n < 10 then [digit_char n] else decimal (n div 10) @ [digit_char (n mod 10)])"

declare decimal.simps [simp del]

definition sprintf_d :: "int \<Rightarrow> string" where
  "sprintf_d i = (if i < 0 then CHR ''-'' # decimal (nat (- i)) else decimal (nat i))"

section \<open>\<^verbatim>\<open>connectAISStream\<close>\<close>

definition subscribeMessage :: SubscribeMessage where
  "subscribeMessage =
     \<lparr>APIKey = ''4275544f465907fb8c57875dcc52425666683d75'',
      BoundingBoxes = [[[-180, -90], [180, 90]]]\<rparr>"

text \<open>The outcome of one pass through the body of the \<^verbatim>\<open>for\<close> loop.\<close>

datatype step = Continue world | Return "error option" world

text \<open>
  One iteration of the loop (lines 57 to 86): read a frame; on a read error return;
  on a decoding error log and \<^verbatim>\<open>continue\<close>; on a position report print it and hand one
  message to the Kafka writer, logging a failure of the write.
\<close>

definition iteration :: "external \<Rightarrow> Writer \<Rightarrow> world \<Rightarrow> step" where
  "iteration e kafkaWriter w =
     (let w1 = w\<lparr>reads := reads w + 1\<rparr> in
      case read_result e (reads w) of
        Inl err \<Rightarrow> Return (Some (Errorf ''failed to read message'' (LibError err))) w1
      | Inr messageJSON \<Rightarrow>
          (case unmarshal e messageJSON of
             Inl err \<Rightarrow> Continue (w1\<lparr>logs := logs w1 @ [LogUnmarshalFailed err]\<rparr>)
           | Inr message \<Rightarrow>
               if MessageType message = ''PositionReport'' then
                 (let aisMessage = PositionReport (Message message);
                      w2 = w1\<lparr>stdout := stdout w1 @ [aisMessage]\<rparr>;
                      w3 = w2\<lparr>writes := writes w2 @
                              [\<lparr>Key = sprintf_d (UserID aisMessage), Value = messageJSON\<rparr>]\<rparr>
                  in case write_result e (length (writes w2)) of
                       Some err \<Rightarrow> Continue (w3\<lparr>logs := logs w3 @ [LogKafkaWriteFailed err]\<rparr>)
                     | None \<Rightarrow> Continue w3)
               else Continue w1))"

text \<open>
  The \<^verbatim>\<open>for\<close> loop has no exit but the \<^verbatim>\<open>return\<close> on a read error, so it may run forever:
  \<open>None\<close> is the run that never returns.
\<close>

partial_function (option) read_loop ::
  "external \<Rightarrow> Writer \<Rightarrow> world \<Rightarrow> (error option \<times> world) option" where
  "read_loop e kafkaWriter w =
     (case iteration e kafkaWriter w of
        Return err w' \<Rightarrow> Some (err, w')
      | Continue w' \<Rightarrow> read_loop e kafkaWriter w')"

text \<open>\<^verbatim>\<open>defer conn.Close()\<close>\<close>

definition conn_Close :: "world \<Rightarrow> world" where
  "conn_Close w = w\<lparr>conn_open := False\<rparr>"

definition connectAISStream :: "external \<Rightarrow> Writer \<Rightarrow> world \<Rightarrow> (error option \<times> world) option" where
  "connectAISStream e kafkaWriter w =
     (let w1 = w\<lparr>dials := dials w + 1\<rparr> in
      case dial_result e of
        Some err \<Rightarrow> Some (Some (Errorf ''failed to connect'' (LibError err)), w1)
      | None \<Rightarrow>
          (let w2 = w1\<lparr>conn_open := True\<rparr> in
           case marshal e subscribeMessage of
             Inl err \<Rightarrow>
               Some (Some (Errorf ''failed to marshal subscribe message'' (LibError err)),
                     conn_Close w2)
           | Inr subscribeJSON \<Rightarrow>
               (let w3 = w2\<lparr>ws_writes := ws_writes w2 @ [subscribeJSON]\<rparr> in
                case send_result e of
                  Some err \<Rightarrow>
                    Some (Some (Errorf ''failed to send subscribe message'' (LibError err)),
                          conn_Close w3)
                | None \<Rightarrow>
                    map_option (\<lambda>(err, w'). (err, conn_Close w')) (read_loop e kafkaWriter w3))))"

section \<open>\<^verbatim>\<open>main\<close>\<close>

text \<open>\<^verbatim>\<open>os.Getenv\<close>: the value of the variable, or the empty string when it is not set.\<close>

definition Getenv :: "(string \<rightharpoonup> string) \<Rightarrow> string \<Rightarrow> string" where
  "Getenv environ k = (case environ k of None \<Rightarrow> [] | Some v \<Rightarrow> v)"

text \<open>Lines 94 to 97.\<close>

definition kafkaBroker :: "(string \<rightharpoonup> string) \<Rightarrow> string" where
  "kafkaBroker environ =
     (let b = Getenv environ ''KAFKA_BROKER'' in if b = [] then ''localhost:9092'' else b)"

text \<open>Lines 99 to 102.\<close>

definition kafkaTopic :: "(string \<rightharpoonup> string) \<Rightarrow> string" where
  "kafkaTopic environ =
     (let t = Getenv environ ''KAFKA_TOPIC'' in if t = [] then ''ais-position-reports'' else t)"

text \<open>Lines 104 to 108: the writer, with a fresh \<^verbatim>\<open>LeastBytes\<close> balancer.\<close>

definition kafkaWriter :: "(string \<rightharpoonup> string) \<Rightarrow> Writer" where
  "kafkaWriter environ =
     \<lparr>Addr = kafkaBroker environ, Topic = kafkaTopic environ, Balancer = LeastBytes []\<rparr>"

text \<open>
  \<^verbatim>\<open>main\<close> returns the exit code of the process with the final world: \<^verbatim>\<open>log.Fatal\<close> prints
  the error and exits with code 1; falling off the end of \<^verbatim>\<open>main\<close> exits with code 0.
  The ten seconds of sleep at the start are not modelled.
\<close>

definition main :: "(string \<rightharpoonup> string) \<Rightarrow> external \<Rightarrow> world \<Rightarrow> (nat \<times> world) option" where
  "main environ e w =
     (let w1 = w\<lparr>logs := logs w @ [LogStarting (kafkaBroker environ) (kafkaTopic environ)]\<rparr> in
      case connectAISStream e (kafkaWriter environ) w1 of
        None \<Rightarrow> None
      | Some (Some err, w2) \<Rightarrow> Some (1, w2\<lparr>logs := logs w2 @ [LogFatal err]\<rparr>)
      | Some (None, w2) \<Rightarrow> Some (0, w2))"

section \<open>The writer's balancer\<close>

text \<open>
  The writer is built with \<^verbatim>\<open>Balancer: &kafka.LeastBytes{}\<close>. The type is the library's
  (github.com/segmentio/kafka-go, \<^verbatim>\<open>balancer.go\<close>), not this repository's; its method
  \<^verbatim>\<open>Balance(msg, partitions...)\<close> is modelled here as the library documents and implements it:
  "LeastBytes is a Balancer implementation that routes messages to the partition that has
  received the least amount of data". The counters are rebuilt (sorted by partition, all
  zero) when the number of partitions changes; the first counter with the least byte
  count is chosen, and the lengths of the key and of the value are added to it. With no
  partition at all the method indexes an empty slice and panics (\<open>None\<close>).
\<close>

definition makeCounters :: "int list \<Rightarrow> leastBytesCounter list" where
  "makeCounters partitions =
     sort_key partition (map (\<lambda>p. \<lparr>partition = p, nbytes = 0\<rparr>) partitions)"

fun scan_min :: "leastBytesCounter list \<Rightarrow> nat \<Rightarrow> nat \<times> 64 word \<Rightarrow> nat \<times> 64 word" where
  "scan_min [] i acc = acc"
| "scan_min (c # cs) i (minIndex, minBytes) =
     (if nbytes c < minBytes then scan_min cs (i + 1) (i + 1, nbytes c)
      else scan_min cs (i + 1) (minIndex, minBytes))"

definition Balance :: "Balancer \<Rightarrow> kafka_Message \<Rightarrow> int list \<Rightarrow> (int \<times> Balancer) option" where
  "Balance b msg partitions =
     (case b of LeastBytes old \<Rightarrow>
        (let counters = (if length partitions \<noteq> length old then makeCounters partitions else old)
         in case counters of
              [] \<Rightarrow> None
            | c0 # rest \<Rightarrow>
                (let minIndex = fst (scan_min rest 0 (0, nbytes c0));
                     c = counters ! minIndex;
                     c' = c\<lparr>nbytes := nbytes c + of_nat (length (Key msg))
                                        + of_nat (length (Value msg))\<rparr>
                 in Some (partition c, LeastBytes (counters[minIndex := c'])))))"

text \<open>
  The counters that \<^verbatim>\<open>Balance\<close> chooses from: the balancer's own, or fresh ones at zero when
  their number is not the number of partitions, as on the first write of a new writer.
\<close>

definition counters_in_force :: "Balancer \<Rightarrow> int list \<Rightarrow> leastBytesCounter list" where
  "counters_in_force b partitions =
     (case b of LeastBytes old \<Rightarrow>
        if length partitions \<noteq> length old then makeCounters partitions else old)"

text \<open>
  The partitions that a sequence of messages, written one after the other through the same
  writer, is assigned to.
\<close>

fun assign :: "Balancer \<Rightarrow> int list \<Rightarrow> kafka_Message list \<Rightarrow> int list option" where
  "assign b partitions [] = Some []"
| "assign b partitions (m # ms) =
     (case Balance b m partitions of
        None \<Rightarrow> None
      | Some (p, b') \<Rightarrow> map_option ((#) p) (assign b' partitions ms))"

section \<open>\<^verbatim>\<open>json.Unmarshal\<close> into a \<^verbatim>\<open>Message\<close>\<close>

text \<open>
  \<^verbatim>\<open>json.Unmarshal\<close> belongs to Go's standard library. It is modelled in two stages. The
  first, the JSON grammar, is a parameter \<open>parse\<close> that turns the bytes of a frame into
  a tree, or fails on a syntax error. The second, which the declarations of lines 20 to 31
  determine, stores the tree into a struct: an object key is matched with a field name
  exactly or under case folding, a key that matches no field is skipped, \<^verbatim>\<open>null\<close> leaves
  the field as it is, a value of the wrong JSON type is an \<^verbatim>\<open>UnmarshalTypeError\<close>, and a field
  that no key matches keeps the value it had (the zero value of \<^verbatim>\<open>var message Message\<close>).
  A number keeps its literal, as in the library's decoder.
\<close>

datatype json =
    JNull
  | JBool bool
  | JNumber string
  | JString string
  | JArray "json list"
  | JObject "(string \<times> json) list"

definition toUpper :: "char \<Rightarrow> char" where
  "toUpper c =
     (if (97::nat) \<le> of_char c \<and> of_char c \<le> (122::nat) then char_of (of_char c - (32::nat))
      else c)"

text \<open>
  The folding of a key: ASCII letters go to upper case; of the characters outside ASCII
  only U+017F (long s) and U+212A (Kelvin sign) fold to an ASCII letter, so only these
  two are folded here and every other byte of a multi-byte character is kept.
\<close>

function foldName :: "string \<Rightarrow> string" where
  "foldName s =
     (case s of
        [] \<Rightarrow> []
      | c # cs \<Rightarrow>
          if c = CHR 0xC5 \<and> take 1 cs = [CHR 0xBF] then CHR ''S'' # foldName (drop 1 cs)
          else if c = CHR 0xE2 \<and> take 2 cs = [CHR 0x84, CHR 0xAA]
            then CHR ''K'' # foldName (drop 2 cs)
          else toUpper c # foldName cs)"
  by pat_completeness auto
termination
  by (relation "measure length") auto

declare foldName.simps [simp del]

definition matches :: "string \<Rightarrow> string \<Rightarrow> bool" where
  "matches name key = (key = name \<or> foldName key = foldName name)"

text \<open>
  \<^verbatim>\<open>strconv.ParseInt(s, 10, 64)\<close>, which the decoder applies to the literal of a number
  stored into an \<^verbatim>\<open>int\<close> field (64 bits wide on the platforms the program is built for): an
  optional sign, then decimal digits only, and a value that fits.
\<close>

definition digit_val :: "char \<Rightarrow> nat option" where
  "digit_val c =
     (if (48::nat) \<le> of_char c \<and> of_char c \<le> (57::nat) then Some (of_char c - 48) else None)"

fun parse_digits :: "string \<Rightarrow> nat \<Rightarrow> nat option" where
  "parse_digits [] acc = Some acc"
| "parse_digits (c # cs) acc =
     (case digit_val c of None \<Rightarrow> None | Some d \<Rightarrow> parse_digits cs (acc * 10 + d))"

definition ParseInt :: "string \<Rightarrow> int option" where
  "ParseInt s =
     (let neg = (take 1 s = ''-'');
          ds = (if take 1 s = ''-'' \<or> take 1 s = ''+'' then drop 1 s else s)
      in if ds = [] then None
         else case parse_digits ds 0 of
                None \<Rightarrow> None
              | Some n \<Rightarrow>
                  (let v = (if neg then - int n else int n)
                   in if - (2 ^ 63) \<le> v \<and> v < 2 ^ 63 then Some v else None))"

definition type_error :: string where
  "type_error = ''json: cannot unmarshal value into Go value''"

definition syntax_error :: string where
  "syntax_error = ''json: invalid character or unexpected end of JSON input''"

text \<open>Storing a JSON value into a field of type \<^verbatim>\<open>int\<close>, \<^verbatim>\<open>float64\<close> and \<^verbatim>\<open>string\<close>.\<close>

definition decode_int :: "json \<Rightarrow> int \<Rightarrow> string + int" where
  "decode_int v cur =
     (case v of
        JNull \<Rightarrow> Inr cur
      | JNumber s \<Rightarrow> (case ParseInt s of None \<Rightarrow> Inl type_error | Some n \<Rightarrow> Inr n)
      | _ \<Rightarrow> Inl type_error)"

definition decode_float :: "(string \<Rightarrow> real option) \<Rightarrow> json \<Rightarrow> real \<Rightarrow> string + real" where
  "decode_float ParseFloat v cur =
     (case v of
        JNull \<Rightarrow> Inr cur
      | JNumber s \<Rightarrow> (case ParseFloat s of None \<Rightarrow> Inl type_error | Some x \<Rightarrow> Inr x)
      | _ \<Rightarrow> Inl type_error)"

definition decode_string :: "json \<Rightarrow> string \<Rightarrow> string + string" where
  "decode_string v cur =
     (case v of JNull \<Rightarrow> Inr cur | JString s \<Rightarrow> Inr s | _ \<Rightarrow> Inl type_error)"

text \<open>The keys of an object are stored one after the other, in the order of the text.\<close>

fun PositionReport_fields ::
  "(string \<Rightarrow> real option) \<Rightarrow> (string \<times> json) list \<Rightarrow> PositionReport \<Rightarrow> string + PositionReport" where
  "PositionReport_fields pf [] p = Inr p"
| "PositionReport_fields pf ((k, v) # kvs) p =
     (if matches ''UserID'' k then
        (case decode_int v (UserID p) of
           Inl err \<Rightarrow> Inl err
         | Inr n \<Rightarrow> PositionReport_fields pf kvs (p\<lparr>UserID := n\<rparr>))
      else if matches ''Latitude'' k then
        (case decode_float pf v (Latitude p) of
           Inl err \<Rightarrow> Inl err
         | Inr x \<Rightarrow> PositionReport_fields pf kvs (p\<lparr>Latitude := x\<rparr>))
      else if matches ''Longitude'' k then
        (case decode_float pf v (Longitude p) of
           Inl err \<Rightarrow> Inl err
         | Inr x \<Rightarrow> PositionReport_fields pf kvs (p\<lparr>Longitude := x\<rparr>))
      else PositionReport_fields pf kvs p)"

definition decode_PositionReport ::
  "(string \<Rightarrow> real option) \<Rightarrow> json \<Rightarrow> PositionReport \<Rightarrow> string + PositionReport" where
  "decode_PositionReport pf v p =
     (case v of
        JNull \<Rightarrow> Inr p
      | JObject kvs \<Rightarrow> PositionReport_fields pf kvs p
      | _ \<Rightarrow> Inl type_error)"

fun payload_fields ::
  "(string \<Rightarrow> real option) \<Rightarrow> (string \<times> json) list \<Rightarrow> Message_payload \<Rightarrow> string + Message_payload" where
  "payload_fields pf [] b = Inr b"
| "payload_fields pf ((k, v) # kvs) b =
     (if matches ''PositionReport'' k then
        (case decode_PositionReport pf v (PositionReport b) of
           Inl err \<Rightarrow> Inl err
         | Inr p \<Rightarrow> payload_fields pf kvs (b\<lparr>PositionReport := p\<rparr>))
      else payload_fields pf kvs b)"

definition decode_payload ::
  "(string \<Rightarrow> real option) \<Rightarrow> json \<Rightarrow> Message_payload \<Rightarrow> string + Message_payload" where
  "decode_payload pf v b =
     (case v of
        JNull \<Rightarrow> Inr b
      | JObject kvs \<Rightarrow> payload_fields pf kvs b
      | _ \<Rightarrow> Inl type_error)"

fun Message_fields ::
  "(string \<Rightarrow> real option) \<Rightarrow> (string \<times> json) list \<Rightarrow> Message \<Rightarrow> string + Message" where
  "Message_fields pf [] m = Inr m"
| "Message_fields pf ((k, v) # kvs) m =
     (if matches ''MessageType'' k then
        (case decode_string v (MessageType m) of
           Inl err \<Rightarrow> Inl err
         | Inr s \<Rightarrow> Message_fields pf kvs (m\<lparr>MessageType := s\<rparr>))
      else if matches ''Message'' k then
        (case decode_payload pf v (Message m) of
           Inl err \<Rightarrow> Inl err
         | Inr b \<Rightarrow> Message_fields pf kvs (m\<lparr>Message := b\<rparr>))
      else Message_fields pf kvs m)"

definition decode_Message :: "(string \<Rightarrow> real option) \<Rightarrow> json \<Rightarrow> Message \<Rightarrow> string + Message" where
  "decode_Message pf v m =
     (case v of
        JNull \<Rightarrow> Inr m
      | JObject kvs \<Rightarrow> Message_fields pf kvs m
      | _ \<Rightarrow> Inl type_error)"

text \<open>\<^verbatim>\<open>var message Message\<close>: every field has its zero value.\<close>

definition zero_PositionReport :: PositionReport where
  "zero_PositionReport = \<lparr>UserID = 0, Latitude = 0, Longitude = 0\<rparr>"

definition zero_Message :: Message where
  "zero_Message = \<lparr>MessageType = [], Message = \<lparr>PositionReport = zero_PositionReport\<rparr>\<rparr>"

text \<open>\<^verbatim>\<open>json.Unmarshal(messageJSON, &message)\<close> on the fresh \<^verbatim>\<open>message\<close> of line 62.\<close>

definition json_Unmarshal ::
  "(bytes \<Rightarrow> json option) \<Rightarrow> (string \<Rightarrow> real option) \<Rightarrow> bytes \<Rightarrow> string + Message" where
  "json_Unmarshal parse pf messageJSON =
     (case parse messageJSON of
        None \<Rightarrow> Inl syntax_error
      | Some v \<Rightarrow> decode_Message pf v zero_Message)"

section \<open>Properties stated by the specification\<close>

text \<open>
  The invariant of a subscribe request in the words of the specification: at least one
  bounding box, each box a pair of corners, each corner a latitude in \<open>[-90, 90]\<close>
  followed by a longitude in \<open>[-180, 180]\<close>.
\<close>

definition valid_latitude :: "real \<Rightarrow> bool" where
  "valid_latitude x = (- 90 \<le> x \<and> x \<le> 90)"

definition valid_longitude :: "real \<Rightarrow> bool" where
  "valid_longitude x = (- 180 \<le> x \<and> x \<le> 180)"

definition valid_corner :: "real list \<Rightarrow> bool" where
  "valid_corner c = (case c of [lat, lon] \<Rightarrow> valid_latitude lat \<and> valid_longitude lon | _ \<Rightarrow> False)"

definition valid_box :: "real list list \<Rightarrow> bool" where
  "valid_box b = (case b of [c1, c2] \<Rightarrow> valid_corner c1 \<and> valid_corner c2 | _ \<Rightarrow> False)"

definition SubscribeRequest_invariant :: "SubscribeMessage \<Rightarrow> bool" where
  "SubscribeRequest_invariant m = (BoundingBoxes m \<noteq> [] \<and> list_all valid_box (BoundingBoxes m))"

text \<open>
  An envelope whose nested position report is absent, empty or without its fields: every
  value under a key for \<^verbatim>\<open>Message\<close> is \<^verbatim>\<open>null\<close> or an object in which every value under a key
  for \<^verbatim>\<open>PositionReport\<close> is \<^verbatim>\<open>null\<close> or an object that gives none of the three fields a value.
\<close>

definition PositionReport_key :: "string \<Rightarrow> bool" where
  "PositionReport_key k = (matches ''UserID'' k \<or> matches ''Latitude'' k \<or> matches ''Longitude'' k)"

definition no_fields :: "json \<Rightarrow> bool" where
  "no_fields v =
     (case v of
        JNull \<Rightarrow> True
      | JObject ps \<Rightarrow> list_all (\<lambda>(k, x). PositionReport_key k \<longrightarrow> x = JNull) ps
      | _ \<Rightarrow> False)"

definition no_report :: "json \<Rightarrow> bool" where
  "no_report v =
     (case v of
        JNull \<Rightarrow> True
      | JObject ms \<Rightarrow> list_all (\<lambda>(k, x). matches ''PositionReport'' k \<longrightarrow> no_fields x) ms
      | _ \<Rightarrow> False)"

definition payload_missing :: "(string \<times> json) list \<Rightarrow> bool" where
  "payload_missing kvs = list_all (\<lambda>(k, x). matches ''Message'' k \<longrightarrow> no_report x) kvs"

text \<open>The envelope says \<^verbatim>\<open>"MessageType": "PositionReport"\<close>.\<close>

definition type_PositionReport :: "(string \<times> json) list \<Rightarrow> bool" where
  "type_PositionReport kvs =
     (list_ex (\<lambda>(k, x). matches ''MessageType'' k) kvs \<and>
      list_all (\<lambda>(k, x). matches ''MessageType'' k \<longrightarrow> x = JString ''PositionReport'') kvs)"

text \<open>The envelope says \<^verbatim>\<open>"MessageType": t\<close>, under every key for that field.\<close>

definition message_type_is :: "string \<Rightarrow> (string \<times> json) list \<Rightarrow> bool" where
  "message_type_is t kvs =
     (list_ex (\<lambda>(k, x). matches ''MessageType'' k) kvs \<and>
      list_all (\<lambda>(k, x). matches ''MessageType'' k \<longrightarrow> x = JString t) kvs)"

text \<open>A tree without the keys that match no field of the struct they are stored into.\<close>

definition strip_PositionReport :: "json \<Rightarrow> json" where
  "strip_PositionReport v =
     (case v of JObject ps \<Rightarrow> JObject (filter (\<lambda>(k, x). PositionReport_key k) ps) | _ \<Rightarrow> v)"

definition strip_payload :: "json \<Rightarrow> json" where
  "strip_payload v =
     (case v of
        JObject ms \<Rightarrow>
          JObject (map (\<lambda>(k, x). (k, strip_PositionReport x))
                     (filter (\<lambda>(k, x). matches ''PositionReport'' k) ms))
      | _ \<Rightarrow> v)"

definition strip_unknown :: "json \<Rightarrow> json" where
  "strip_unknown v =
     (case v of
        JObject kvs \<Rightarrow>
          JObject (map (\<lambda>(k, x). if matches ''MessageType'' k then (k, x) else (k, strip_payload x))
                     (filter (\<lambda>(k, x). matches ''MessageType'' k \<or> matches ''Message'' k) kvs))
      | _ \<Rightarrow> v)"

section \<open>A concrete run\<close>

text \<open>
  Four frames: the truncated text, the static-data envelope and the position report of
  the end-to-end scenarios of the specification, and a position report with an empty
  payload; then the connection closes. The first write to the broker fails.
\<close>

definition frame_truncated :: bytes where
  \<open>frame_truncated = ''{"MessageType":''\<close>

definition frame_static :: bytes where
  \<open>frame_static = ''{"MessageType":"ShipStaticData","Message":{}}''\<close>

definition frame_report :: bytes where
  \<open>frame_report = ''{"MessageType":"PositionReport","Message":{"PositionReport":{"UserID":367123456,"Latitude":51.5,"Longitude":-0.12}}}''\<close>

definition frame_empty :: bytes where
  \<open>frame_empty = ''{"MessageType":"PositionReport","Message":{},"MetaData":{"MMSI":1}}''\<close>

definition demo_parse :: "bytes \<Rightarrow> json option" where
  "demo_parse f =
     (if f = frame_static then
        Some (JObject [(''MessageType'', JString ''ShipStaticData''), (''Message'', JObject [])])
      else if f = frame_report then
        Some (JObject
          [(''MessageType'', JString ''PositionReport''),
           (''Message'', JObject
              [(''PositionReport'', JObject
                  [(''UserID'', JNumber ''367123456''),
                   (''Latitude'', JNumber ''51.5''),
                   (''Longitude'', JNumber ''-0.12'')])])])
      else if f = frame_empty then
        Some (JObject
          [(''MessageType'', JString ''PositionReport''),
           (''Message'', JObject []),
           (''MetaData'', JObject [(''MMSI'', JNumber ''1'')])])
      else None)"

definition demo_ParseFloat :: "string \<Rightarrow> real option" where
  "demo_ParseFloat s =
     (if s = ''51.5'' then Some (103 / 2)
      else if s = ''-0.12'' then Some (- (3 / 25))
      else None)"

definition demo_frames :: "bytes list" where
  "demo_frames = [frame_truncated, frame_static, frame_report, frame_empty]"

definition demo_subscribeJSON :: bytes where
  \<open>demo_subscribeJSON = ''{"APIKey":"4275544f465907fb8c57875dcc52425666683d75","BoundingBoxes":[[[-180,-90],[180,90]]]}''\<close>

definition demo :: external where
  "demo =
     \<lparr>dial_result = None,
      send_result = None,
      read_result = (\<lambda>i. if i < length demo_frames then Inr (demo_frames ! i)
                          else Inl ''websocket: close 1006 (abnormal closure)''),
      write_result = (\<lambda>i. if i = 0 then Some ''kafka: broker unreachable'' else None),
      marshal = (\<lambda>m. Inr demo_subscribeJSON),
      unmarshal = json_Unmarshal demo_parse demo_ParseFloat\<rparr>"

definition world0 :: world where
  "world0 =
     \<lparr>dials = 0, conn_open = False, ws_writes = [], reads = 0, writes = [], logs = [],
      stdout = []\<rparr>"

text \<open>The world that a pass through the loop body leaves behind.\<close>

fun world_of :: "step \<Rightarrow> world" where
  "world_of (Continue w) = w"
| "world_of (Return err w) = w"

section \<open>The read loop\<close>

lemma iteration_frame:
  assumes "read_result e (reads w) = Inr f"
  shows "\<exists>w'. iteration e kw w = Continue w' \<and> reads w' = reads w + 1
           \<and> dials w' = dials w \<and> conn_open w' = conn_open w \<and> ws_writes w' = ws_writes w
           \<and> length (writes w') \<le> length (writes w) + 1"
  using assms by (simp add: iteration_def Let_def split: sum.splits option.splits)

lemma iteration_read_error:
  assumes "read_result e (reads w) = Inl err"
  shows "iteration e kw w =
           Return (Some (Errorf ''failed to read message'' (LibError err))) (w\<lparr>reads := reads w + 1\<rparr>)"
  using assms by (simp add: iteration_def Let_def)

lemma read_loop_Continue:
  "iteration e kw w = Continue w' \<Longrightarrow> read_loop e kw w = read_loop e kw w'"
  by (subst read_loop.simps) simp

lemma read_loop_Return:
  "iteration e kw w = Return err w' \<Longrightarrow> read_loop e kw w = Some (err, w')"
  by (subst read_loop.simps) simp

lemma read_loop_returns:
  assumes "\<forall>i<n. \<exists>f. read_result e (reads w + i) = Inr f"
      and "read_result e (reads w + n) = Inl err"
  shows "\<exists>w'. read_loop e kw w =
                 Some (Some (Errorf ''failed to read message'' (LibError err)), w')
           \<and> reads w' = reads w + n + 1 \<and> dials w' = dials w \<and> conn_open w' = conn_open w
           \<and> ws_writes w' = ws_writes w \<and> length (writes w') \<le> length (writes w) + n"
  using assms
proof (induction n arbitrary: w)
  case 0
  then show ?case
    by (simp add: read_loop_Return [OF iteration_read_error])
next
  case (Suc n)
  from Suc.prems(1) obtain f where f: "read_result e (reads w) = Inr f"
    by (metis add.right_neutral zero_less_Suc)
  from iteration_frame [OF f, of kw] obtain w1 where
    w1: "iteration e kw w = Continue w1" "reads w1 = reads w + 1" "dials w1 = dials w"
      "conn_open w1 = conn_open w" "ws_writes w1 = ws_writes w"
      "length (writes w1) \<le> length (writes w) + 1"
    by blast
  have frames: "\<forall>i<n. \<exists>f. read_result e (reads w1 + i) = Inr f"
  proof (intro allI impI)
    fix i assume "i < n"
    then have "Suc i < Suc n" by simp
    with Suc.prems(1) have "\<exists>f. read_result e (reads w + Suc i) = Inr f" by blast
    then show "\<exists>f. read_result e (reads w1 + i) = Inr f" by (simp add: w1)
  qed
  have err: "read_result e (reads w1 + n) = Inl err"
    using Suc.prems(2) by (simp add: w1)
  from Suc.IH [OF frames err] obtain w' where
    "read_loop e kw w1 = Some (Some (Errorf ''failed to read message'' (LibError err)), w')"
    "reads w' = reads w1 + n + 1" "dials w' = dials w1" "conn_open w' = conn_open w1"
    "ws_writes w' = ws_writes w1" "length (writes w') \<le> length (writes w1) + n"
    by blast
  then show ?case
    using w1 by (simp add: read_loop_Continue [OF w1(1)])
qed

lemma connectAISStream_subscribed:
  assumes "dial_result e = None"
      and "marshal e subscribeMessage = Inr subscribeJSON"
      and "send_result e = None"
  shows "connectAISStream e kw w =
           map_option (\<lambda>(err, w'). (err, conn_Close w'))
             (read_loop e kw
                (w\<lparr>dials := dials w + 1, conn_open := True,
                   ws_writes := ws_writes w @ [subscribeJSON]\<rparr>))"
  using assms by (simp add: connectAISStream_def Let_def)

section \<open>Evaluating the concrete run\<close>

lemmas char_eval = char_of_def bit_Suc_0_iff

lemma matches_self [simp]: "matches name name"
  by (simp add: matches_def)

lemma foldName_names:
  "foldName ''MessageType'' = ''MESSAGETYPE''"
  "foldName ''Message'' = ''MESSAGE''"
  "foldName ''MetaData'' = ''METADATA''"
  "foldName ''PositionReport'' = ''POSITIONREPORT''"
  "foldName ''UserID'' = ''USERID''"
  "foldName ''Latitude'' = ''LATITUDE''"
  "foldName ''Longitude'' = ''LONGITUDE''"
  "foldName ''MMSI'' = ''MMSI''"
  by (simp_all add: foldName.simps toUpper_def char_eval)

lemma matches_names [simp]:
  "\<not> matches ''MessageType'' ''Message''"
  "\<not> matches ''MessageType'' ''MetaData''"
  "\<not> matches ''Message'' ''MessageType''"
  "\<not> matches ''Message'' ''MetaData''"
  "\<not> matches ''UserID'' ''Latitude''"
  "\<not> matches ''UserID'' ''Longitude''"
  "\<not> matches ''Latitude'' ''Longitude''"
  by (simp_all add: matches_def foldName_names)

lemma ParseInt_example: "ParseInt ''367123456'' = Some 367123456"
  by (simp add: ParseInt_def digit_val_def Let_def)

lemma sprintf_d_example: "sprintf_d 367123456 = ''367123456''"
  by (simp add: sprintf_d_def decimal.simps digit_char_def char_eval)

lemma sprintf_d_0: "sprintf_d 0 = ''0''"
  by (simp add: sprintf_d_def decimal.simps digit_char_def char_eval)

lemma frames_distinct:
  "frame_report \<noteq> frame_static" "frame_empty \<noteq> frame_static" "frame_empty \<noteq> frame_report"
  "frame_truncated \<noteq> frame_static" "frame_truncated \<noteq> frame_report"
  "frame_truncated \<noteq> frame_empty"
  by (simp_all add: frame_report_def frame_static_def frame_empty_def frame_truncated_def)

lemmas decode_defs =
  json_Unmarshal_def decode_Message_def decode_string_def decode_payload_def
  decode_PositionReport_def decode_int_def decode_float_def zero_Message_def
  zero_PositionReport_def

lemma demo_unmarshal_truncated: "unmarshal demo frame_truncated = Inl syntax_error"
  by (simp add: demo_def json_Unmarshal_def demo_parse_def frames_distinct)

lemma demo_unmarshal_static:
  "unmarshal demo frame_static =
     Inr \<lparr>MessageType = ''ShipStaticData'', Message = \<lparr>PositionReport = zero_PositionReport\<rparr>\<rparr>"
  by (simp add: demo_def demo_parse_def decode_defs)

lemma demo_unmarshal_report:
  "unmarshal demo frame_report =
     Inr \<lparr>MessageType = ''PositionReport'',
          Message = \<lparr>PositionReport =
            \<lparr>UserID = 367123456, Latitude = 103 / 2, Longitude = - (3 / 25)\<rparr>\<rparr>\<rparr>"
  by (simp add: demo_def demo_parse_def frames_distinct decode_defs ParseInt_example
      demo_ParseFloat_def)

lemma demo_unmarshal_empty:
  "unmarshal demo frame_empty =
     Inr \<lparr>MessageType = ''PositionReport'', Message = \<lparr>PositionReport = zero_PositionReport\<rparr>\<rparr>"
  by (simp add: demo_def demo_parse_def frames_distinct decode_defs)

lemma demo_reads:
  "read_result demo 0 = Inr frame_truncated"
  "read_result demo 1 = Inr frame_static"
  "read_result demo 2 = Inr frame_report"
  "read_result demo 3 = Inr frame_empty"
  "read_result demo 4 = Inl ''websocket: close 1006 (abnormal closure)''"
  by (simp_all add: demo_def demo_frames_def)

lemma world0_simps [simp]:
  "dials world0 = 0" "conn_open world0 = False" "ws_writes world0 = []" "reads world0 = 0"
  "writes world0 = []" "logs world0 = []" "stdout world0 = []"
  by (simp_all add: world0_def)

section \<open>The balancer on a concrete topic\<close>

lemma makeCounters_01:
  "makeCounters [0, 1] = [\<lparr>partition = 0, nbytes = 0\<rparr>, \<lparr>partition = 1, nbytes = 0\<rparr>]"
  by (simp add: makeCounters_def)

lemma Balance_first:
  "Balance (LeastBytes []) \<lparr>Key = ''367123456'', Value = frame_report\<rparr> [0, 1]
     = Some (0, LeastBytes [\<lparr>partition = 0, nbytes = 125\<rparr>, \<lparr>partition = 1, nbytes = 0\<rparr>])"
  by (simp add: Balance_def makeCounters_01 Let_def frame_report_def)

lemma Balance_second:
  "Balance (LeastBytes [\<lparr>partition = 0, nbytes = 125\<rparr>, \<lparr>partition = 1, nbytes = 0\<rparr>])
       \<lparr>Key = ''367123456'', Value = frame_report\<rparr> [0, 1]
     = Some (1, LeastBytes [\<lparr>partition = 0, nbytes = 125\<rparr>, \<lparr>partition = 1, nbytes = 125\<rparr>])"
  by (simp add: Balance_def Let_def frame_report_def)

lemma Balance_partition_independent_of_message:
  "map_option fst (Balance b m1 ps) = map_option fst (Balance b m2 ps)"
  by (cases b) (simp add: Balance_def Let_def split: list.splits)

lemma scan_min_least:
  assumes "scan_min cs i (mi, mb) = (mi', mb')"
      and "mi \<le> i"
  shows "mb' \<le> mb \<and> (\<forall>c\<in>set cs. mb' \<le> nbytes c)
         \<and> ((mi' = mi \<and> mb' = mb) \<or> (i < mi' \<and> mi' \<le> i + length cs \<and> nbytes (cs ! (mi' - i - 1)) = mb'))"
  using assms
proof (induction cs arbitrary: i mi mb)
  case Nil
  then show ?case by simp
next
  case (Cons c cs)
  show ?case
  proof (cases "nbytes c < mb")
    case True
    with Cons.prems have s: "scan_min cs (i + 1) (i + 1, nbytes c) = (mi', mb')"
      by simp
    from Cons.IH [OF s] have ih: "mb' \<le> nbytes c" "\<forall>c\<in>set cs. mb' \<le> nbytes c"
      "(mi' = i + 1 \<and> mb' = nbytes c)
         \<or> (i + 1 < mi' \<and> mi' \<le> i + 1 + length cs \<and> nbytes (cs ! (mi' - (i + 1) - 1)) = mb')"
      by simp_all
    from ih(1) True have "mb' \<le> mb" by simp
    moreover have "\<forall>c'\<in>set (c # cs). mb' \<le> nbytes c'"
      using ih(1,2) by simp
    moreover have "i < mi' \<and> mi' \<le> i + length (c # cs) \<and> nbytes ((c # cs) ! (mi' - i - 1)) = mb'"
      using ih(3)
    proof
      assume "mi' = i + 1 \<and> mb' = nbytes c"
      then show ?thesis by simp
    next
      assume a: "i + 1 < mi' \<and> mi' \<le> i + 1 + length cs \<and> nbytes (cs ! (mi' - (i + 1) - 1)) = mb'"
      then have "mi' - i - 1 = Suc (mi' - (i + 1) - 1)" by arith
      with a show ?thesis by simp
    qed
    ultimately show ?thesis by blast
  next
    case False
    with Cons.prems have s: "scan_min cs (i + 1) (mi, mb) = (mi', mb')"
      by simp
    from Cons.prems(2) have le: "mi \<le> i + 1" by simp
    from Cons.IH [OF s le] have ih: "mb' \<le> mb" "\<forall>c\<in>set cs. mb' \<le> nbytes c"
      "(mi' = mi \<and> mb' = mb)
         \<or> (i + 1 < mi' \<and> mi' \<le> i + 1 + length cs \<and> nbytes (cs ! (mi' - (i + 1) - 1)) = mb')"
      by simp_all
    have "\<forall>c'\<in>set (c # cs). mb' \<le> nbytes c'"
      using ih(1,2) False by auto
    moreover have "(mi' = mi \<and> mb' = mb)
         \<or> (i < mi' \<and> mi' \<le> i + length (c # cs) \<and> nbytes ((c # cs) ! (mi' - i - 1)) = mb')"
      using ih(3)
    proof
      assume "mi' = mi \<and> mb' = mb"
      then show ?thesis by simp
    next
      assume a: "i + 1 < mi' \<and> mi' \<le> i + 1 + length cs \<and> nbytes (cs ! (mi' - (i + 1) - 1)) = mb'"
      then have "mi' - i - 1 = Suc (mi' - (i + 1) - 1)" by arith
      with a show ?thesis by simp
    qed
    ultimately show ?thesis using ih(1) by blast
  qed
qed

lemma Balance_least_bytes:
  assumes "length partitions = length cs"
      and "Balance (LeastBytes cs) m partitions = Some (p, b')"
  shows "\<exists>c\<in>set cs. partition c = p \<and> (\<forall>c'\<in>set cs. nbytes c \<le> nbytes c')"
proof (cases cs)
  case Nil
  with assms show ?thesis by (simp add: Balance_def)
next
  case (Cons c0 rest)
  obtain mi mb where s: "scan_min rest 0 (0, nbytes c0) = (mi, mb)"
    by (cases "scan_min rest 0 (0, nbytes c0)")
  from scan_min_least [OF s] have l: "mb \<le> nbytes c0" "\<forall>c\<in>set rest. mb \<le> nbytes c"
    "(mi = 0 \<and> mb = nbytes c0) \<or> (0 < mi \<and> mi \<le> length rest \<and> nbytes (rest ! (mi - 1)) = mb)"
    by simp_all
  have idx: "mi < length cs \<and> nbytes (cs ! mi) = mb"
    using l(3) Cons by (cases mi) auto
  have p: "p = partition (cs ! mi)"
    using assms Cons s by (simp add: Balance_def Let_def)
  have "\<forall>c'\<in>set cs. nbytes (cs ! mi) \<le> nbytes c'"
    using l(1,2) idx Cons by auto
  with idx p show ?thesis
    by (metis nth_mem)
qed

lemma length_makeCounters: "length (makeCounters partitions) = length partitions"
  by (simp add: makeCounters_def)

lemma counters_in_force_Nil: "counters_in_force b partitions = [] \<longleftrightarrow> partitions = []"
proof (cases b)
  case (LeastBytes old)
  have "length (counters_in_force b partitions) = length partitions"
    by (simp add: counters_in_force_def LeastBytes length_makeCounters)
  then show ?thesis
    by (metis length_0_conv)
qed

lemma Balance_None: "Balance b m partitions = None \<longleftrightarrow> partitions = []"
proof (cases b)
  case (LeastBytes old)
  have "Balance b m partitions = None \<longleftrightarrow> counters_in_force b partitions = []"
    by (simp add: Balance_def counters_in_force_def LeastBytes Let_def split: list.splits)
  then show ?thesis
    by (simp add: counters_in_force_Nil)
qed

lemma Balance_least_in_force:
  assumes "Balance b m partitions = Some (p, b')"
  shows "\<exists>c\<in>set (counters_in_force b partitions).
           partition c = p \<and> (\<forall>c'\<in>set (counters_in_force b partitions). nbytes c \<le> nbytes c')"
proof (cases b)
  case (LeastBytes old)
  let ?cs = "counters_in_force b partitions"
  have len: "length partitions = length ?cs"
    by (simp add: counters_in_force_def LeastBytes length_makeCounters)
  have "Balance (LeastBytes ?cs) m partitions = Balance b m partitions"
    using len by (simp add: Balance_def counters_in_force_def LeastBytes)
  with assms have "Balance (LeastBytes ?cs) m partitions = Some (p, b')"
    by simp
  from Balance_least_bytes [OF len this] show ?thesis .
qed

section \<open>The decimal form of an integer\<close>

lemma digit_val_digit_char: "d < 10 \<Longrightarrow> digit_val (digit_char d) = Some d"
  by (simp add: digit_val_def digit_char_def)

lemma parse_digits_append:
  "parse_digits (xs @ ys) acc =
     (case parse_digits xs acc of None \<Rightarrow> None | Some a \<Rightarrow> parse_digits ys a)"
  by (induction xs arbitrary: acc) (simp_all split: option.splits)

lemma parse_digits_decimal: "parse_digits (decimal n) acc = Some (acc * 10 ^ length (decimal n) + n)"
proof (induction n arbitrary: acc rule: decimal.induct)
  case (1 n)
  show ?case
  proof (cases "n < 10")
    case True
    then show ?thesis
      by (subst (1 2) decimal.simps) (simp add: digit_val_digit_char)
  next
    case False
    have m: "n mod 10 < 10" by simp
    from False "1.IH" [of acc] show ?thesis
      by (subst (1 2) decimal.simps)
         (simp add: parse_digits_append digit_val_digit_char [OF m] algebra_simps)
  qed
qed

lemma decimal_not_Nil: "decimal n \<noteq> []"
  by (subst decimal.simps) simp

lemma decimal_inj:
  assumes "decimal n = decimal m"
  shows "n = m"
proof -
  have "Some n = parse_digits (decimal n) 0"
    by (simp add: parse_digits_decimal)
  also have "\<dots> = parse_digits (decimal m) 0"
    by (simp only: assms)
  also have "\<dots> = Some m"
    by (simp add: parse_digits_decimal)
  finally show ?thesis by simp
qed

lemma decimal_no_sign:
  assumes "digit_val c = None"
  shows "decimal n \<noteq> c # cs"
proof
  assume eq: "decimal n = c # cs"
  have "parse_digits (c # cs) 0 = None"
    using assms by simp
  moreover have "parse_digits (c # cs) 0 = Some n"
    unfolding eq [symmetric] by (simp add: parse_digits_decimal)
  ultimately show False by simp
qed

lemma digit_val_signs: "digit_val CHR ''-'' = None" "digit_val CHR ''+'' = None"
  by (simp_all add: digit_val_def)

lemma sprintf_d_inj: "sprintf_d i = sprintf_d j \<longleftrightarrow> i = j"
proof
  assume eq: "sprintf_d i = sprintf_d j"
  show "i = j"
  proof (cases "i < 0"; cases "j < 0")
    assume "i < 0" "j < 0"
    with eq have "nat (- i) = nat (- j)" by (auto simp: sprintf_d_def dest: decimal_inj)
    with \<open>i < 0\<close> \<open>j < 0\<close> show ?thesis by simp
  next
    assume "i < 0" "\<not> j < 0"
    with eq decimal_no_sign [OF digit_val_signs(1)] show ?thesis
      by (auto simp: sprintf_d_def dest: sym)
  next
    assume "\<not> i < 0" "j < 0"
    with eq decimal_no_sign [OF digit_val_signs(1)] show ?thesis
      by (auto simp: sprintf_d_def)
  next
    assume "\<not> i < 0" "\<not> j < 0"
    with eq have "nat i = nat j" by (auto simp: sprintf_d_def dest: decimal_inj)
    with \<open>\<not> i < 0\<close> \<open>\<not> j < 0\<close> show ?thesis by simp
  qed
qed simp

lemma take1_decimal:
  "take (Suc 0) (decimal n) \<noteq> ''-''" "take (Suc 0) (decimal n) \<noteq> ''+''"
proof -
  obtain c cs where d: "decimal n = c # cs"
    using decimal_not_Nil [of n] by (cases "decimal n") auto
  have "c \<noteq> CHR ''-''" "c \<noteq> CHR ''+''"
    using decimal_no_sign [OF digit_val_signs(1), of n cs]
      decimal_no_sign [OF digit_val_signs(2), of n cs] d by auto
  then show "take (Suc 0) (decimal n) \<noteq> ''-''" "take (Suc 0) (decimal n) \<noteq> ''+''"
    by (simp_all add: d)
qed

lemma ParseInt_sprintf_d:
  assumes "- (2 ^ 63) \<le> i" "i < 2 ^ 63"
  shows "ParseInt (sprintf_d i) = Some i"
proof (cases "i < 0")
  case True
  with assms show ?thesis
    by (simp add: ParseInt_def sprintf_d_def decimal_not_Nil parse_digits_decimal)
next
  case False
  with assms show ?thesis
    by (simp add: ParseInt_def sprintf_d_def decimal_not_Nil parse_digits_decimal take1_decimal)
qed

section \<open>Decoding an envelope without a position report\<close>

lemma decode_null [simp]:
  "decode_int JNull n = Inr n" "decode_float pf JNull x = Inr x" "decode_string JNull s = Inr s"
  by (simp_all add: decode_int_def decode_float_def decode_string_def)

lemma PositionReport_fields_none:
  "list_all (\<lambda>(k, x). PositionReport_key k \<longrightarrow> x = JNull) ps \<Longrightarrow>
     PositionReport_fields pf ps p = Inr p"
  by (induction ps arbitrary: p) (auto simp: PositionReport_key_def)

lemma decode_PositionReport_none:
  "no_fields v \<Longrightarrow> decode_PositionReport pf v p = Inr p"
  by (cases v) (simp_all add: no_fields_def decode_PositionReport_def PositionReport_fields_none)

lemma payload_fields_none:
  "list_all (\<lambda>(k, x). matches ''PositionReport'' k \<longrightarrow> no_fields x) ms \<Longrightarrow>
     payload_fields pf ms b = Inr b"
  by (induction ms arbitrary: b) (auto simp: decode_PositionReport_none)

lemma decode_payload_none:
  "no_report v \<Longrightarrow> decode_payload pf v b = Inr b"
  by (cases v) (simp_all add: no_report_def decode_payload_def payload_fields_none)

lemma Message_fields_type_only:
  assumes "payload_missing kvs"
      and "list_all (\<lambda>(k, x). matches ''MessageType'' k \<longrightarrow> x = JString t) kvs"
  shows "Message_fields pf kvs m =
           Inr (m\<lparr>MessageType := (if list_ex (\<lambda>(k, x). matches ''MessageType'' k) kvs then t
                                   else MessageType m)\<rparr>)"
  using assms
  by (induction kvs arbitrary: m)
     (auto simp: payload_missing_def decode_payload_none decode_string_def)

lemma json_Unmarshal_type_only:
  assumes "parse f = Some (JObject kvs)"
      and "type_PositionReport kvs"
      and "payload_missing kvs"
  shows "json_Unmarshal parse pf f =
           Inr \<lparr>MessageType = ''PositionReport'',
                Message = \<lparr>PositionReport = \<lparr>UserID = 0, Latitude = 0, Longitude = 0\<rparr>\<rparr>\<rparr>"
  using assms
  by (simp add: json_Unmarshal_def decode_Message_def type_PositionReport_def
      Message_fields_type_only [where t = "''PositionReport''"] zero_Message_def
      zero_PositionReport_def)

section \<open>Keys that match no field\<close>

lemma PositionReport_fields_strip:
  "PositionReport_fields pf (filter (\<lambda>(k, x). PositionReport_key k) ps) p =
     PositionReport_fields pf ps p"
  by (induction ps arbitrary: p) (simp_all add: PositionReport_key_def split_paired_all cong: sum.case_cong)

lemma decode_PositionReport_strip:
  "decode_PositionReport pf (strip_PositionReport v) p = decode_PositionReport pf v p"
  by (cases v) (simp_all add: strip_PositionReport_def decode_PositionReport_def
      PositionReport_fields_strip)

lemma payload_fields_strip:
  "payload_fields pf
     (map (\<lambda>(k, x). (k, strip_PositionReport x))
        (filter (\<lambda>(k, x). matches ''PositionReport'' k) ms)) b =
   payload_fields pf ms b"
  by (induction ms arbitrary: b)
     (simp_all add: decode_PositionReport_strip split_paired_all cong: sum.case_cong)

lemma decode_payload_strip:
  "decode_payload pf (strip_payload v) b = decode_payload pf v b"
  by (cases v) (simp_all add: strip_payload_def decode_payload_def payload_fields_strip)

lemma Message_fields_strip:
  "Message_fields pf
     (map (\<lambda>(k, x). if matches ''MessageType'' k then (k, x) else (k, strip_payload x))
        (filter (\<lambda>(k, x). matches ''MessageType'' k \<or> matches ''Message'' k) kvs)) m =
   Message_fields pf kvs m"
  by (induction kvs arbitrary: m)
     (simp_all add: decode_payload_strip split_paired_all cong: sum.case_cong)

lemma decode_Message_strip:
  "decode_Message pf (strip_unknown v) m = decode_Message pf v m"
  by (cases v) (simp_all add: strip_unknown_def decode_Message_def Message_fields_strip)

section \<open>The claims\<close>

text \<open>
  Claim C1, amended. Two position reports carry the same key exactly when they carry the
  same \<^verbatim>\<open>UserID\<close>. The partition of a record is chosen by the writer's \<^verbatim>\<open>LeastBytes\<close>
  balancer from its byte counters and the list of partitions alone: in the same state of
  the balancer any two records, with identical keys or not, get the same partition; a
  partition is chosen whenever the topic has one, and it is a partition whose counter is
  the least of the counters in force (on the first write of a new writer, or when the
  number of partitions has changed, fresh counters at zero). The key plays no part in the
  choice, so nothing keeps two records with identical keys that are written one after the
  other in one partition.
\<close>

theorem key_by_UserID_partition_by_least_bytes:
  "(Key \<lparr>Key = sprintf_d u1, Value = f1\<rparr> = Key \<lparr>Key = sprintf_d u2, Value = f2\<rparr> \<longleftrightarrow> u1 = u2)
   \<and> map_option fst (Balance b m1 partitions) = map_option fst (Balance b m2 partitions)
   \<and> (Balance b m partitions = None \<longleftrightarrow> partitions = [])
   \<and> (Balance b m partitions = Some (p, b')
        \<longrightarrow> (\<exists>c\<in>set (counters_in_force b partitions).
               partition c = p
               \<and> (\<forall>c'\<in>set (counters_in_force b partitions). nbytes c \<le> nbytes c')))"
  using Balance_partition_independent_of_message [of b m1 partitions m2]
    Balance_least_in_force [of b m partitions p b'] Balance_None [of b m partitions]
  by (simp add: sprintf_d_inj)

text \<open>
  The first two writes of the writer that \<^verbatim>\<open>main\<close> builds, to a topic of two partitions: the
  first record finds fresh counters and goes to partition 0; the second finds 125 bytes
  counted there and goes to partition 1.
\<close>

theorem key_by_UserID_partition_by_least_bytes_witness:
  "Balance (Balancer (kafkaWriter Map.empty)) \<lparr>Key = ''367123456'', Value = frame_report\<rparr> [0, 1]
     = Some (0, LeastBytes [\<lparr>partition = 0, nbytes = 125\<rparr>, \<lparr>partition = 1, nbytes = 0\<rparr>])
   \<and> counters_in_force (Balancer (kafkaWriter Map.empty)) [0, 1]
       = [\<lparr>partition = 0, nbytes = 0\<rparr>, \<lparr>partition = 1, nbytes = 0\<rparr>]
   \<and> (\<exists>c\<in>set (counters_in_force (Balancer (kafkaWriter Map.empty)) [0, 1]).
          partition c = 0
          \<and> (\<forall>c'\<in>set (counters_in_force (Balancer (kafkaWriter Map.empty)) [0, 1]).
                nbytes c \<le> nbytes c'))
   \<and> Balance (LeastBytes [\<lparr>partition = 0, nbytes = 125\<rparr>, \<lparr>partition = 1, nbytes = 0\<rparr>])
         \<lparr>Key = ''367123456'', Value = frame_report\<rparr> [0, 1]
       = Some (1, LeastBytes [\<lparr>partition = 0, nbytes = 125\<rparr>, \<lparr>partition = 1, nbytes = 125\<rparr>])
   \<and> (\<exists>c\<in>set (counters_in_force
                  (LeastBytes [\<lparr>partition = 0, nbytes = 125\<rparr>, \<lparr>partition = 1, nbytes = 0\<rparr>]) [0, 1]).
          partition c = 1
          \<and> (\<forall>c'\<in>set (counters_in_force
                  (LeastBytes [\<lparr>partition = 0, nbytes = 125\<rparr>, \<lparr>partition = 1, nbytes = 0\<rparr>]) [0, 1]).
                nbytes c \<le> nbytes c'))"
proof -
  let ?m = "\<lparr>Key = ''367123456'', Value = frame_report\<rparr>"
  let ?b0 = "Balancer (kafkaWriter Map.empty)"
  let ?b1 = "LeastBytes [\<lparr>partition = 0, nbytes = 125\<rparr>, \<lparr>partition = 1, nbytes = 0 :: 64 word\<rparr>]"
  let ?b2 = "LeastBytes [\<lparr>partition = 0, nbytes = 125\<rparr>, \<lparr>partition = 1, nbytes = 125 :: 64 word\<rparr>]"
  have first: "Balance ?b0 ?m [0, 1] = Some (0, ?b1)"
    by (simp add: kafkaWriter_def Balance_first)
  have cs: "counters_in_force ?b0 [0, 1]
       = [\<lparr>partition = 0, nbytes = 0\<rparr>, \<lparr>partition = 1, nbytes = 0\<rparr>]"
    by (simp add: kafkaWriter_def counters_in_force_def makeCounters_01)
  from key_by_UserID_partition_by_least_bytes [of 0 "[]" 0 "[]" ?b0 ?m "[0, 1]" ?m ?m 0 ?b1] first
  have one: "\<exists>c\<in>set (counters_in_force ?b0 [0, 1]).
          partition c = 0 \<and> (\<forall>c'\<in>set (counters_in_force ?b0 [0, 1]). nbytes c \<le> nbytes c')"
    by blast
  from key_by_UserID_partition_by_least_bytes [of 0 "[]" 0 "[]" ?b1 ?m "[0, 1]" ?m ?m 1 ?b2]
    Balance_second
  have two: "\<exists>c\<in>set (counters_in_force ?b1 [0, 1]).
          partition c = 1 \<and> (\<forall>c'\<in>set (counters_in_force ?b1 [0, 1]). nbytes c \<le> nbytes c')"
    by blast
  from first cs one two Balance_second show ?thesis by blast
qed

text \<open>
  Two records with the same key (the same record twice), written one after the other to a
  topic of two partitions: the first goes to partition 0, the second to partition 1.
\<close>

theorem same_key_different_partitions:
  "assign (Balancer (kafkaWriter Map.empty)) [0, 1]
     [\<lparr>Key = ''367123456'', Value = frame_report\<rparr>,
      \<lparr>Key = ''367123456'', Value = frame_report\<rparr>] = Some [0, 1]"
  by (simp add: kafkaWriter_def Balance_first Balance_second)

text \<open>
  Claim C2. A frame that decodes to an envelope with \<^verbatim>\<open>MessageType == "PositionReport"\<close> makes
  the iteration hand exactly one message to the writer: its key is the decimal form of the
  report's \<^verbatim>\<open>UserID\<close>, its value the bytes of the frame as they were read.
\<close>

theorem position_report_published_verbatim:
  assumes "read_result e (reads w) = Inr messageJSON"
      and "unmarshal e messageJSON = Inr message"
      and "MessageType message = ''PositionReport''"
  shows "\<exists>w'. iteration e kw w = Continue w'
           \<and> writes w' = writes w @
                [\<lparr>Key = sprintf_d (UserID (PositionReport (Message message))),
                  Value = messageJSON\<rparr>]"
  using assms by (simp add: iteration_def Let_def split: option.splits)

text \<open>The position report of the specification's end-to-end scenario.\<close>

theorem position_report_published_verbatim_witness:
  "read_result demo (reads (world0\<lparr>reads := 2\<rparr>)) = Inr frame_report
   \<and> unmarshal demo frame_report =
       Inr \<lparr>MessageType = ''PositionReport'',
            Message = \<lparr>PositionReport =
              \<lparr>UserID = 367123456, Latitude = 103 / 2, Longitude = - (3 / 25)\<rparr>\<rparr>\<rparr>
   \<and> (\<exists>w'. iteration demo (kafkaWriter Map.empty) (world0\<lparr>reads := 2\<rparr>) = Continue w'
          \<and> writes w' = [\<lparr>Key = ''367123456'', Value = frame_report\<rparr>])"
proof -
  have r: "read_result demo (reads (world0\<lparr>reads := 2\<rparr>)) = Inr frame_report"
    by (simp add: demo_reads)
  have t: "MessageType \<lparr>MessageType = ''PositionReport'',
            Message = \<lparr>PositionReport =
              \<lparr>UserID = 367123456, Latitude = 103 / 2, Longitude = - (3 / 25)\<rparr>\<rparr>\<rparr>
           = ''PositionReport''"
    by simp
  from position_report_published_verbatim [OF r demo_unmarshal_report t, of "kafkaWriter Map.empty"]
  obtain w' where "iteration demo (kafkaWriter Map.empty) (world0\<lparr>reads := 2\<rparr>) = Continue w'"
    and "writes w' = [\<lparr>Key = ''367123456'', Value = frame_report\<rparr>]"
    by (auto simp: sprintf_d_example)
  with r demo_unmarshal_report show ?thesis by blast
qed

text \<open>
  Claim C3. A frame that decodes to an envelope of another message type is discarded: nothing
  is handed to the writer, nothing is logged, and the loop goes on with the next read.
\<close>

theorem other_message_types_discarded:
  assumes "read_result e (reads w) = Inr messageJSON"
      and "unmarshal e messageJSON = Inr message"
      and "MessageType message \<noteq> ''PositionReport''"
  shows "\<exists>w'. iteration e kw w = Continue w' \<and> writes w' = writes w \<and> logs w' = logs w
           \<and> conn_open w' = conn_open w \<and> reads w' = reads w + 1
           \<and> read_loop e kw w = read_loop e kw w'"
proof -
  have "iteration e kw w = Continue (w\<lparr>reads := reads w + 1\<rparr>)"
    using assms by (simp add: iteration_def Let_def)
  then show ?thesis
    using read_loop_Continue [of e kw w] by simp
qed

text \<open>The static-data envelope of the specification's end-to-end scenario.\<close>

theorem other_message_types_discarded_witness:
  "read_result demo (reads (world0\<lparr>reads := 1\<rparr>)) = Inr frame_static
   \<and> (\<exists>w'. iteration demo (kafkaWriter Map.empty) (world0\<lparr>reads := 1\<rparr>) = Continue w'
          \<and> writes w' = [] \<and> logs w' = [] \<and> reads w' = 2)"
proof -
  have r: "read_result demo (reads (world0\<lparr>reads := 1\<rparr>)) = Inr frame_static"
    using demo_reads(2) by simp
  have t: "MessageType \<lparr>MessageType = ''ShipStaticData'',
             Message = \<lparr>PositionReport = zero_PositionReport\<rparr>\<rparr> \<noteq> ''PositionReport''"
    by simp
  from other_message_types_discarded [OF r demo_unmarshal_static t, of "kafkaWriter Map.empty"]
  obtain w' where "iteration demo (kafkaWriter Map.empty) (world0\<lparr>reads := 1\<rparr>) = Continue w'"
    and "writes w' = []" and "logs w' = []" and "reads w' = 2"
    by auto
  with r show ?thesis by blast
qed

text \<open>
  Claim C4. A frame on which decoding fails is not fatal: the error is logged, nothing is
  handed to the writer, the connection stays as it is, and the loop goes on with the next
  read.
\<close>

theorem decode_failure_is_not_fatal:
  assumes "read_result e (reads w) = Inr messageJSON"
      and "unmarshal e messageJSON = Inl err"
  shows "\<exists>w'. iteration e kw w = Continue w' \<and> logs w' = logs w @ [LogUnmarshalFailed err]
           \<and> writes w' = writes w \<and> conn_open w' = conn_open w \<and> reads w' = reads w + 1
           \<and> read_loop e kw w = read_loop e kw w'"
proof -
  have "iteration e kw w =
          Continue (w\<lparr>reads := reads w + 1, logs := logs w @ [LogUnmarshalFailed err]\<rparr>)"
    using assms by (simp add: iteration_def Let_def)
  then show ?thesis
    using read_loop_Continue [of e kw w] by simp
qed

text \<open>The truncated frame of the specification's end-to-end scenario.\<close>

theorem decode_failure_is_not_fatal_witness:
  "read_result demo (reads world0) = Inr frame_truncated
   \<and> unmarshal demo frame_truncated = Inl syntax_error
   \<and> (\<exists>w'. iteration demo (kafkaWriter Map.empty) world0 = Continue w'
          \<and> logs w' = [LogUnmarshalFailed syntax_error] \<and> writes w' = [] \<and> reads w' = 1)"
proof -
  have r: "read_result demo (reads world0) = Inr frame_truncated"
    by (simp add: demo_reads)
  from decode_failure_is_not_fatal [OF r demo_unmarshal_truncated, of "kafkaWriter Map.empty"]
  obtain w' where "iteration demo (kafkaWriter Map.empty) world0 = Continue w'"
    and "logs w' = [LogUnmarshalFailed syntax_error]" and "writes w' = []" and "reads w' = 1"
    by auto
  with r demo_unmarshal_truncated show ?thesis by blast
qed

text \<open>
  Claim C5. A failing write to the broker is not fatal: the message was handed to the writer
  once, the error is logged, nothing is kept for a second attempt, and the loop goes on with
  the next read.
\<close>

theorem publish_failure_is_not_fatal:
  assumes "read_result e (reads w) = Inr messageJSON"
      and "unmarshal e messageJSON = Inr message"
      and "MessageType message = ''PositionReport''"
      and "write_result e (length (writes w)) = Some err"
  shows "\<exists>w'. iteration e kw w = Continue w'
           \<and> writes w' = writes w @
                [\<lparr>Key = sprintf_d (UserID (PositionReport (Message message))),
                  Value = messageJSON\<rparr>]
           \<and> logs w' = logs w @ [LogKafkaWriteFailed err]
           \<and> conn_open w' = conn_open w \<and> reads w' = reads w + 1
           \<and> read_loop e kw w = read_loop e kw w'"
proof -
  have "\<exists>w'. iteration e kw w = Continue w'
           \<and> writes w' = writes w @
                [\<lparr>Key = sprintf_d (UserID (PositionReport (Message message))),
                  Value = messageJSON\<rparr>]
           \<and> logs w' = logs w @ [LogKafkaWriteFailed err]
           \<and> conn_open w' = conn_open w \<and> reads w' = reads w + 1"
    using assms by (simp add: iteration_def Let_def)
  then show ?thesis
    using read_loop_Continue [of e kw w] by blast
qed

text \<open>The first write of the concrete run fails.\<close>

theorem publish_failure_is_not_fatal_witness:
  "read_result demo (reads (world0\<lparr>reads := 2\<rparr>)) = Inr frame_report
   \<and> write_result demo (length (writes (world0\<lparr>reads := 2\<rparr>))) = Some ''kafka: broker unreachable''
   \<and> (\<exists>w'. iteration demo (kafkaWriter Map.empty) (world0\<lparr>reads := 2\<rparr>) = Continue w'
          \<and> writes w' = [\<lparr>Key = ''367123456'', Value = frame_report\<rparr>]
          \<and> logs w' = [LogKafkaWriteFailed ''kafka: broker unreachable'']
          \<and> reads w' = 3
          \<and> read_loop demo (kafkaWriter Map.empty) (world0\<lparr>reads := 2\<rparr>)
              = read_loop demo (kafkaWriter Map.empty) w')"
proof -
  have r: "read_result demo (reads (world0\<lparr>reads := 2\<rparr>)) = Inr frame_report"
    by (simp add: demo_reads)
  have t: "MessageType \<lparr>MessageType = ''PositionReport'',
            Message = \<lparr>PositionReport =
              \<lparr>UserID = 367123456, Latitude = 103 / 2, Longitude = - (3 / 25)\<rparr>\<rparr>\<rparr>
           = ''PositionReport''"
    by simp
  have k: "write_result demo (length (writes (world0\<lparr>reads := 2\<rparr>)))
             = Some ''kafka: broker unreachable''"
    by (simp add: demo_def)
  from publish_failure_is_not_fatal [OF r demo_unmarshal_report t k, of "kafkaWriter Map.empty"]
  obtain w' where "iteration demo (kafkaWriter Map.empty) (world0\<lparr>reads := 2\<rparr>) = Continue w'"
    and "writes w' = [\<lparr>Key = ''367123456'', Value = frame_report\<rparr>]"
    and "logs w' = [LogKafkaWriteFailed ''kafka: broker unreachable'']"
    and "reads w' = 3"
    and "read_loop demo (kafkaWriter Map.empty) (world0\<lparr>reads := 2\<rparr>)
              = read_loop demo (kafkaWriter Map.empty) w'"
    by (auto simp: sprintf_d_example)
  with r k show ?thesis by blast
qed

text \<open>
  Claim C6. When the read after \<open>n\<close> frames fails (or finds the connection closed), the
  program ends: that read was the last one, at most one message for each of the \<open>n\<close> frames
  was handed to the writer, \<^verbatim>\<open>Dial\<close> was called once and never again, the connection is closed,
  the cause is the last line of the log, and the exit code is 1.
\<close>

theorem read_failure_terminates:
  assumes "dial_result e = None"
      and "marshal e subscribeMessage = Inr subscribeJSON"
      and "send_result e = None"
      and "\<forall>i<n. \<exists>f. read_result e (reads w + i) = Inr f"
      and "read_result e (reads w + n) = Inl err"
  shows "\<exists>w'. main environ e w = Some (1, w')
           \<and> reads w' = reads w + n + 1
           \<and> length (writes w') \<le> length (writes w) + n
           \<and> dials w' = dials w + 1
           \<and> \<not> conn_open w'
           \<and> last (logs w') = LogFatal (Errorf ''failed to read message'' (LibError err))"
proof -
  let ?w1 = "w\<lparr>logs := logs w @ [LogStarting (kafkaBroker environ) (kafkaTopic environ)]\<rparr>"
  let ?w3 = "?w1\<lparr>dials := dials ?w1 + 1, conn_open := True,
                  ws_writes := ws_writes ?w1 @ [subscribeJSON]\<rparr>"
  have frames: "\<forall>i<n. \<exists>f. read_result e (reads ?w3 + i) = Inr f"
    using assms(4) by simp
  have err: "read_result e (reads ?w3 + n) = Inl err"
    using assms(5) by simp
  from read_loop_returns [OF frames err, of "kafkaWriter environ"] obtain w' where
    loop: "read_loop e (kafkaWriter environ) ?w3 =
             Some (Some (Errorf ''failed to read message'' (LibError err)), w')"
    and w': "reads w' = reads ?w3 + n + 1" "dials w' = dials ?w3"
      "length (writes w') \<le> length (writes ?w3) + n"
    by blast
  have "connectAISStream e (kafkaWriter environ) ?w1 =
          map_option (\<lambda>(err, w'). (err, conn_Close w')) (read_loop e (kafkaWriter environ) ?w3)"
    by (rule connectAISStream_subscribed [OF assms(1-3)])
  then have "connectAISStream e (kafkaWriter environ) ?w1 =
          Some (Some (Errorf ''failed to read message'' (LibError err)), conn_Close w')"
    unfolding loop by simp
  then have "main environ e w =
          Some (1, (conn_Close w')\<lparr>logs := logs (conn_Close w') @
                  [LogFatal (Errorf ''failed to read message'' (LibError err))]\<rparr>)"
    by (simp add: main_def Let_def)
  then show ?thesis
    using w' by (simp add: conn_Close_def)
qed

text \<open>The concrete run: four frames, then the connection closes.\<close>

theorem read_failure_terminates_witness:
  "read_result demo 0 = Inr frame_truncated
   \<and> read_result demo 1 = Inr frame_static
   \<and> read_result demo 2 = Inr frame_report
   \<and> read_result demo 3 = Inr frame_empty
   \<and> read_result demo 4 = Inl ''websocket: close 1006 (abnormal closure)''
   \<and> (\<exists>w'. main Map.empty demo world0 = Some (1, w') \<and> reads w' = 5 \<and> length (writes w') \<le> 4
          \<and> dials w' = 1 \<and> \<not> conn_open w'
          \<and> last (logs w') = LogFatal (Errorf ''failed to read message''
                (LibError ''websocket: close 1006 (abnormal closure)'')))"
proof -
  have d: "dial_result demo = None" by (simp add: demo_def)
  have m: "marshal demo subscribeMessage = Inr demo_subscribeJSON" by (simp add: demo_def)
  have s: "send_result demo = None" by (simp add: demo_def)
  have f: "\<forall>i<4. \<exists>f. read_result demo (reads world0 + i) = Inr f"
    by (simp add: demo_def demo_frames_def)
  have r: "read_result demo (reads world0 + 4) = Inl ''websocket: close 1006 (abnormal closure)''"
    by (simp add: demo_reads)
  from read_failure_terminates [OF d m s f r, of Map.empty]
  have "\<exists>w'. main Map.empty demo world0 = Some (1, w') \<and> reads w' = 5 \<and> length (writes w') \<le> 4
          \<and> dials w' = 1 \<and> \<not> conn_open w'
          \<and> last (logs w') = LogFatal (Errorf ''failed to read message''
                (LibError ''websocket: close 1006 (abnormal closure)''))"
    by simp
  with demo_reads show ?thesis by blast
qed

text \<open>
  Claim C7. The request of line 40 has one bounding box of two corners, but the corners are
  written as \<^verbatim>\<open>{-180, -90}\<close> and \<^verbatim>\<open>{180, 90}\<close>: read as (latitude, longitude), the way the
  feed and the invariant of the subscribe request have them, the latitudes are \<open>-180\<close> and
  \<open>180\<close>, outside \<open>[-90, 90]\<close>, and the invariant does not hold.
\<close>

theorem subscribe_request_latitude_out_of_range:
  "BoundingBoxes subscribeMessage = [[[- 180, - 90], [180, 90]]]
   \<and> \<not> valid_latitude (- 180) \<and> \<not> valid_latitude 180
   \<and> \<not> SubscribeRequest_invariant subscribeMessage"
  by (simp add: subscribeMessage_def SubscribeRequest_invariant_def valid_box_def
      valid_corner_def valid_latitude_def)

text \<open>
  Claim C8, amended. The broker address and the topic come from the environment variables
  \<^verbatim>\<open>KAFKA_BROKER\<close> and \<^verbatim>\<open>KAFKA_TOPIC\<close>; a variable that is unset or empty gives the default,
  \<^verbatim>\<open>localhost:9092\<close> and \<^verbatim>\<open>ais-position-reports\<close>. The variables \<^verbatim>\<open>BROKER_ADDRESS\<close> and
  \<^verbatim>\<open>TOPIC_NAME\<close> are not read.
\<close>

theorem broker_and_topic_from_environment:
  "Addr (kafkaWriter environ) =
     (case environ ''KAFKA_BROKER'' of
        None \<Rightarrow> ''localhost:9092''
      | Some v \<Rightarrow> if v = [] then ''localhost:9092'' else v)
   \<and> Topic (kafkaWriter environ) =
     (case environ ''KAFKA_TOPIC'' of
        None \<Rightarrow> ''ais-position-reports''
      | Some v \<Rightarrow> if v = [] then ''ais-position-reports'' else v)
   \<and> kafkaWriter (environ(''BROKER_ADDRESS'' := a, ''TOPIC_NAME'' := t)) = kafkaWriter environ"
  by (simp add: kafkaWriter_def kafkaBroker_def kafkaTopic_def Getenv_def Let_def
      split: option.splits)

text \<open>
  With \<^verbatim>\<open>BROKER_ADDRESS\<close> and \<^verbatim>\<open>TOPIC_NAME\<close> set, the writer still gets the defaults.
\<close>

theorem environment_names_counterexample:
  "Addr (kafkaWriter [''BROKER_ADDRESS'' \<mapsto> ''kafka:29092'', ''TOPIC_NAME'' \<mapsto> ''boats''])
     = ''localhost:9092''
   \<and> Topic (kafkaWriter [''BROKER_ADDRESS'' \<mapsto> ''kafka:29092'', ''TOPIC_NAME'' \<mapsto> ''boats''])
     = ''ais-position-reports''"
  by (simp add: kafkaWriter_def kafkaBroker_def kafkaTopic_def Getenv_def)

text \<open>
  Claim C9, amended. Whether an envelope is dropped is decided by its \<^verbatim>\<open>MessageType\<close> and not
  by its nested payload. Take any frame that is a JSON object, in any key order and with
  any other keys, that says \<^verbatim>\<open>"MessageType": t\<close> and whose nested payload is empty or of
  another kind: \<^verbatim>\<open>Message\<close> is absent, \<^verbatim>\<open>null\<close> or an object, and a \<^verbatim>\<open>PositionReport\<close> in it is
  absent, \<^verbatim>\<open>null\<close> or an object that gives none of the three fields a value. When \<open>t\<close> is not
  \<^verbatim>\<open>"PositionReport"\<close> nothing is handed to the writer and nothing is logged; when \<open>t\<close> is
  \<^verbatim>\<open>"PositionReport"\<close> the frame is handed to the writer as it was read, under the key
  \<^verbatim>\<open>"0"\<close>, and only a failure of that write is logged.
\<close>

theorem drop_decided_by_message_type:
  assumes "read_result e (reads w) = Inr f"
      and "unmarshal e = json_Unmarshal parse pf"
      and "parse f = Some (JObject kvs)"
      and "message_type_is t kvs"
      and "payload_missing kvs"
  shows "\<exists>w'. iteration e kw w = Continue w'
           \<and> writes w' = writes w @
                (if t = ''PositionReport'' then [\<lparr>Key = ''0'', Value = f\<rparr>] else [])
           \<and> logs w' = logs w @
                (if t = ''PositionReport''
                 then (case write_result e (length (writes w)) of
                         None \<Rightarrow> []
                       | Some err \<Rightarrow> [LogKafkaWriteFailed err])
                 else [])"
proof -
  have "unmarshal e f =
          Inr \<lparr>MessageType = t, Message = \<lparr>PositionReport = zero_PositionReport\<rparr>\<rparr>"
    using assms(4)
    by (simp add: assms(2,3) json_Unmarshal_def decode_Message_def message_type_is_def
        Message_fields_type_only [OF assms(5), where t = t] zero_Message_def)
  with assms(1) show ?thesis
    by (simp add: iteration_def Let_def zero_PositionReport_def sprintf_d_0
        split: option.splits)
qed

text \<open>
  Both arms on the concrete run: the static-data envelope with its empty payload is
  dropped; the position report with an empty payload and a \<^verbatim>\<open>MetaData\<close> key, read after the
  first record was written, is handed to the writer under the key \<^verbatim>\<open>"0"\<close>.
\<close>

theorem drop_decided_by_message_type_witness:
  "read_result demo (reads (world0\<lparr>reads := 1\<rparr>)) = Inr frame_static
   \<and> demo_parse frame_static =
       Some (JObject [(''MessageType'', JString ''ShipStaticData''), (''Message'', JObject [])])
   \<and> (\<exists>w'. iteration demo (kafkaWriter Map.empty) (world0\<lparr>reads := 1\<rparr>) = Continue w'
          \<and> writes w' = [] \<and> logs w' = [])
   \<and> read_result demo
         (reads (world0\<lparr>reads := 3, writes := [\<lparr>Key = ''367123456'', Value = frame_report\<rparr>]\<rparr>))
       = Inr frame_empty
   \<and> demo_parse frame_empty =
       Some (JObject
         [(''MessageType'', JString ''PositionReport''),
          (''Message'', JObject []),
          (''MetaData'', JObject [(''MMSI'', JNumber ''1'')])])
   \<and> (\<exists>w'. iteration demo (kafkaWriter Map.empty)
               (world0\<lparr>reads := 3, writes := [\<lparr>Key = ''367123456'', Value = frame_report\<rparr>]\<rparr>)
             = Continue w'
          \<and> writes w' = [\<lparr>Key = ''367123456'', Value = frame_report\<rparr>,
                          \<lparr>Key = ''0'', Value = frame_empty\<rparr>]
          \<and> logs w' = [])"
proof -
  let ?w1 = "world0\<lparr>reads := 1\<rparr>"
  let ?w3 = "world0\<lparr>reads := 3, writes := [\<lparr>Key = ''367123456'', Value = frame_report\<rparr>]\<rparr>"
  let ?k1 = "[(''MessageType'', JString ''ShipStaticData''), (''Message'', JObject [])]"
  let ?k3 = "[(''MessageType'', JString ''PositionReport''),
          (''Message'', JObject []),
          (''MetaData'', JObject [(''MMSI'', JNumber ''1'')])]"
  have u: "unmarshal demo = json_Unmarshal demo_parse demo_ParseFloat"
    by (simp add: demo_def)
  have r1: "read_result demo (reads ?w1) = Inr frame_static"
    using demo_reads(2) by simp
  have p1: "demo_parse frame_static = Some (JObject ?k1)"
    by (simp add: demo_parse_def)
  have t1: "message_type_is ''ShipStaticData'' ?k1"
    by (simp add: message_type_is_def)
  have m1: "payload_missing ?k1"
    by (simp add: payload_missing_def no_report_def)
  have r3: "read_result demo (reads ?w3) = Inr frame_empty"
    using demo_reads(4) by simp
  have p3: "demo_parse frame_empty = Some (JObject ?k3)"
    by (simp add: demo_parse_def frames_distinct)
  have t3: "message_type_is ''PositionReport'' ?k3"
    by (simp add: message_type_is_def)
  have m3: "payload_missing ?k3"
    by (simp add: payload_missing_def no_report_def)
  have k3: "write_result demo (length (writes ?w3)) = None"
    by (simp add: demo_def)
  from drop_decided_by_message_type [OF r1 u p1 t1 m1, of "kafkaWriter Map.empty"]
  have one: "\<exists>w'. iteration demo (kafkaWriter Map.empty) ?w1 = Continue w'
          \<and> writes w' = [] \<and> logs w' = []"
    by simp
  from drop_decided_by_message_type [OF r3 u p3 t3 m3, of "kafkaWriter Map.empty"] k3
  have two: "\<exists>w'. iteration demo (kafkaWriter Map.empty) ?w3 = Continue w'
          \<and> writes w' = [\<lparr>Key = ''367123456'', Value = frame_report\<rparr>,
                          \<lparr>Key = ''0'', Value = frame_empty\<rparr>]
          \<and> logs w' = []"
    by simp
  from r1 p1 one r3 p3 two show ?thesis by blast
qed

text \<open>
  A position report with an empty payload is not dropped: the fourth frame of the concrete
  run is handed to the writer under the key \<^verbatim>\<open>"0"\<close>.
\<close>

theorem empty_payload_is_published:
  "demo_parse frame_empty =
     Some (JObject
       [(''MessageType'', JString ''PositionReport''),
        (''Message'', JObject []),
        (''MetaData'', JObject [(''MMSI'', JNumber ''1'')])])
   \<and> writes (world_of (iteration demo (kafkaWriter Map.empty) (world0\<lparr>reads := 3\<rparr>)))
       = [\<lparr>Key = ''0'', Value = frame_empty\<rparr>]"
  using demo_reads(4)
  by (simp add: iteration_def Let_def demo_unmarshal_empty zero_PositionReport_def sprintf_d_0
      demo_parse_def frames_distinct split: option.splits)

text \<open>
  Claim C10. A frame that is a JSON object saying \<^verbatim>\<open>"MessageType": "PositionReport"\<close> whose
  nested position report is absent, empty or without its fields decodes without error to
  \<^verbatim>\<open>UserID = 0\<close>, \<^verbatim>\<open>Latitude = 0\<close>, \<^verbatim>\<open>Longitude = 0\<close>, and is handed to the writer as it was
  read under the key \<^verbatim>\<open>"0"\<close>. Keys that match no field are ignored at every level: storing
  a tree gives the same result, error or struct, as storing it without those keys.
\<close>

theorem zero_valued_report_is_published:
  "(read_result e (reads w) = Inr f \<and> unmarshal e = json_Unmarshal parse pf
      \<and> parse f = Some (JObject kvs) \<and> type_PositionReport kvs \<and> payload_missing kvs
     \<longrightarrow> unmarshal e f =
           Inr \<lparr>MessageType = ''PositionReport'',
                Message = \<lparr>PositionReport = \<lparr>UserID = 0, Latitude = 0, Longitude = 0\<rparr>\<rparr>\<rparr>
         \<and> (\<exists>w'. iteration e kw w = Continue w'
                \<and> writes w' = writes w @ [\<lparr>Key = ''0'', Value = f\<rparr>]))
   \<and> decode_Message pf (strip_unknown v) m = decode_Message pf v m"
proof (intro conjI impI)
  assume a: "read_result e (reads w) = Inr f \<and> unmarshal e = json_Unmarshal parse pf
      \<and> parse f = Some (JObject kvs) \<and> type_PositionReport kvs \<and> payload_missing kvs"
  then show u: "unmarshal e f =
           Inr \<lparr>MessageType = ''PositionReport'',
                Message = \<lparr>PositionReport = \<lparr>UserID = 0, Latitude = 0, Longitude = 0\<rparr>\<rparr>\<rparr>"
    by (simp add: json_Unmarshal_type_only)
  from a u show "\<exists>w'. iteration e kw w = Continue w'
                \<and> writes w' = writes w @ [\<lparr>Key = ''0'', Value = f\<rparr>]"
    by (simp add: iteration_def Let_def sprintf_d_0 split: option.splits)
next
  show "decode_Message pf (strip_unknown v) m = decode_Message pf v m"
    by (rule decode_Message_strip)
qed

text \<open>
  The fourth frame of the concrete run: an empty payload and an unknown key \<^verbatim>\<open>MetaData\<close>.
\<close>

theorem zero_valued_report_is_published_witness:
  "read_result demo (reads (world0\<lparr>reads := 3\<rparr>)) = Inr frame_empty
   \<and> demo_parse frame_empty =
       Some (JObject
         [(''MessageType'', JString ''PositionReport''),
          (''Message'', JObject []),
          (''MetaData'', JObject [(''MMSI'', JNumber ''1'')])])
   \<and> unmarshal demo frame_empty =
       Inr \<lparr>MessageType = ''PositionReport'',
            Message = \<lparr>PositionReport = \<lparr>UserID = 0, Latitude = 0, Longitude = 0\<rparr>\<rparr>\<rparr>
   \<and> (\<exists>w'. iteration demo (kafkaWriter Map.empty) (world0\<lparr>reads := 3\<rparr>) = Continue w'
          \<and> writes w' = [\<lparr>Key = ''0'', Value = frame_empty\<rparr>])
   \<and> strip_unknown (JObject
         [(''MessageType'', JString ''PositionReport''),
          (''Message'', JObject []),
          (''MetaData'', JObject [(''MMSI'', JNumber ''1'')])])
       = JObject [(''MessageType'', JString ''PositionReport''), (''Message'', JObject [])]
   \<and> decode_Message demo_ParseFloat
         (JObject [(''MessageType'', JString ''PositionReport''), (''Message'', JObject [])])
         zero_Message
       = decode_Message demo_ParseFloat
           (JObject
             [(''MessageType'', JString ''PositionReport''),
              (''Message'', JObject []),
              (''MetaData'', JObject [(''MMSI'', JNumber ''1'')])])
           zero_Message"
proof -
  let ?kvs = "[(''MessageType'', JString ''PositionReport''),
          (''Message'', JObject []),
          (''MetaData'', JObject [(''MMSI'', JNumber ''1'')])]"
  have r: "read_result demo (reads (world0\<lparr>reads := 3\<rparr>)) = Inr frame_empty"
    using demo_reads(4) by simp
  have u: "unmarshal demo = json_Unmarshal demo_parse demo_ParseFloat"
    by (simp add: demo_def)
  have p: "demo_parse frame_empty = Some (JObject ?kvs)"
    by (simp add: demo_parse_def frames_distinct)
  have t: "type_PositionReport ?kvs"
    by (simp add: type_PositionReport_def)
  have m: "payload_missing ?kvs"
    by (simp add: payload_missing_def no_report_def)
  have s: "strip_unknown (JObject ?kvs)
       = JObject [(''MessageType'', JString ''PositionReport''), (''Message'', JObject [])]"
    by (simp add: strip_unknown_def strip_payload_def)
  from zero_valued_report_is_published [of demo "world0\<lparr>reads := 3\<rparr>" frame_empty demo_parse
      demo_ParseFloat ?kvs "kafkaWriter Map.empty" "JObject ?kvs" zero_Message] r u p t m
  have "unmarshal demo frame_empty =
       Inr \<lparr>MessageType = ''PositionReport'',
            Message = \<lparr>PositionReport = \<lparr>UserID = 0, Latitude = 0, Longitude = 0\<rparr>\<rparr>\<rparr>
   \<and> (\<exists>w'. iteration demo (kafkaWriter Map.empty) (world0\<lparr>reads := 3\<rparr>) = Continue w'
          \<and> writes w' = [\<lparr>Key = ''0'', Value = frame_empty\<rparr>])
   \<and> decode_Message demo_ParseFloat (strip_unknown (JObject ?kvs)) zero_Message
       = decode_Message demo_ParseFloat (JObject ?kvs) zero_Message"
    by simp
  with r p s show ?thesis by simp
qed

end
